theory Spec2Isabelle
  imports Complex_Main
begin

section \<open>Python values used by \<open>read_nbody.py\<close>\<close>

text \<open>
  The exceptions that the modelled methods of \<open>Catalog_Manager\<close> can raise. \<open>IOError\<close>
  carries the message of the \<open>raise\<close> statement; the others are raised by the Python
  runtime or by numpy (\<open>IndexError\<close> by \<open>c[k]\<close> out of range, \<open>ValueError\<close> by
  \<open>float\<close> on a string that is no numeral and by \<open>argmin\<close> of an empty array,
  \<open>TypeError\<close> by \<open>len(None)\<close>, \<open>ZeroDivisionError\<close> by a float division by zero,
  \<open>URLError\<close> by \<open>urllib2.urlopen\<close>).
\<close>

datatype error =
    IOError string
  | IndexError
  | ValueError
  | TypeError
  | ZeroDivisionError
  | URLError

text \<open>
  Python slicing \<open>xs[i:j]\<close> and \<open>xs[i:]\<close>: a negative bound counts from the end, and every
  bound is clamped into \<open>0..len(xs)\<close>. Indexing \<open>xs[i]\<close> raises \<open>IndexError\<close> out of range.
\<close>

definition py_bound :: "int \<Rightarrow> int \<Rightarrow> nat" where
  "py_bound n i = (if i < 0 then nat (max 0 (n + i)) else nat (min n i))"

definition py_slice :: "'a list \<Rightarrow> int \<Rightarrow> int \<Rightarrow> 'a list" where
  "py_slice xs i j =
     (let n = int (length xs); a = py_bound n i; b = py_bound n j
      in take (b - a) (drop a xs))"

definition py_slice_from :: "'a list \<Rightarrow> int \<Rightarrow> 'a list" where
  "py_slice_from xs i = drop (py_bound (int (length xs)) i) xs"

definition py_index :: "'a list \<Rightarrow> int \<Rightarrow> error + 'a" where
  "py_index xs i =
     (if 0 \<le> i \<and> i < int (length xs) then Inr (xs ! nat i)
      else if i < 0 \<and> - int (length xs) \<le> i then Inr (xs ! nat (int (length xs) + i))
      else Inl IndexError)"

section \<open>\<open>Catalog_Manager.identify_relevant_catalogs\<close>\<close>

text \<open>
  The module \<open>configuration\<close> is not part of the sources: its directory listing
  \<open>list_of_catalogs_in_cache(catalog_type=...)\<close> is a parameter of the model, a function
  from the (optional) catalog type to the list of cached filenames.

  \<open>file_mask\<close> is the boolean numpy array of the source, a list of booleans updated by
  index; every loop runs over \<open>enumerate(available_catalogs)\<close>, whatever the mask holds.
\<close>

definition fix_pluralization :: "string option \<Rightarrow> string option" where
  "fix_pluralization catalog_type =
     (let ct1 = (if catalog_type = Some ''halo'' then Some ''halos'' else catalog_type)
      in if ct1 = Some ''particle'' then Some ''particles'' else ct1)"

fun impose_catalog_type :: "string \<Rightarrow> (nat \<times> string) list \<Rightarrow> bool list \<Rightarrow> bool list" where
  "impose_catalog_type catalog_type [] file_mask = file_mask"
| "impose_catalog_type catalog_type ((ii, c) # rest) file_mask =
     (if py_slice_from c (- int (length catalog_type) - 5) \<noteq> catalog_type @ ''.fits''
      then impose_catalog_type catalog_type rest (file_mask[ii := False])
      else impose_catalog_type catalog_type rest file_mask)"

text \<open>
  The simulation-name loop. Python's \<open>or\<close> evaluates \<open>c[len(simname)]\<close> only when the
  first comparison is false, that is when \<open>c\<close> starts with \<open>simname\<close>.
\<close>

fun impose_simname :: "string \<Rightarrow> (nat \<times> string) list \<Rightarrow> bool list \<Rightarrow> error + bool list" where
  "impose_simname simname [] file_mask = Inr file_mask"
| "impose_simname simname ((ii, c) # rest) file_mask =
     (if py_slice c 0 (int (length simname)) \<noteq> simname
      then impose_simname simname rest (file_mask[ii := False])
      else (case py_index c (int (length simname)) of
              Inl e \<Rightarrow> Inl e
            | Inr ch \<Rightarrow>
                if ch \<noteq> CHR ''_''
                then impose_simname simname rest (file_mask[ii := False])
                else impose_simname simname rest file_mask))"

fun impose_halo_finder :: "string \<Rightarrow> (nat \<times> string) list \<Rightarrow> bool list \<Rightarrow> bool list" where
  "impose_halo_finder halo_finder [] file_mask = file_mask"
| "impose_halo_finder halo_finder ((ii, c) # rest) file_mask =
     (if py_slice c (- 11 - int (length halo_finder)) (- 11) \<noteq> halo_finder
      then impose_halo_finder halo_finder rest (file_mask[ii := False])
      else impose_halo_finder halo_finder rest file_mask)"

text \<open>Boolean-mask indexing \<open>available_catalogs[file_mask]\<close>.\<close>

definition mask_select :: "'a list \<Rightarrow> bool list \<Rightarrow> 'a list" where
  "mask_select xs file_mask = map fst (filter snd (zip xs file_mask))"

definition identify_relevant_catalogs ::
  "(string option \<Rightarrow> string list) \<Rightarrow> string option \<Rightarrow> string option \<Rightarrow> string option
     \<Rightarrow> error + string list" where
  "identify_relevant_catalogs list_of_catalogs_in_cache catalog_type0 simname halo_finder =
     (let catalog_type = fix_pluralization catalog_type0;
          available_catalogs = list_of_catalogs_in_cache catalog_type;
          file_mask = replicate (length available_catalogs) True;
          file_mask1 = (case catalog_type of
                          None \<Rightarrow> file_mask
                        | Some ct \<Rightarrow> impose_catalog_type ct (enumerate 0 available_catalogs) file_mask)
      in case (case simname of
                 None \<Rightarrow> Inr file_mask1
               | Some sn \<Rightarrow> impose_simname sn (enumerate 0 available_catalogs) file_mask1) of
           Inl e \<Rightarrow> Inl e
         | Inr file_mask2 \<Rightarrow>
             (let file_mask3 = (case halo_finder of
                                  None \<Rightarrow> file_mask2
                                | Some hf \<Rightarrow> impose_halo_finder hf (enumerate 0 available_catalogs) file_mask2)
              in Inr (mask_select available_catalogs file_mask3)))"

text \<open>The three string predicates that the loops test, one filename at a time.\<close>

definition kind_ok :: "string option \<Rightarrow> string \<Rightarrow> bool" where
  "kind_ok catalog_type c =
     (case catalog_type of
        None \<Rightarrow> True
      | Some ct \<Rightarrow> py_slice_from c (- int (length ct) - 5) = ct @ ''.fits'')"

definition simname_ok :: "string option \<Rightarrow> string \<Rightarrow> bool" where
  "simname_ok simname c =
     (case simname of
        None \<Rightarrow> True
      | Some sn \<Rightarrow> py_slice c 0 (int (length sn)) = sn \<and> py_index c (int (length sn)) = Inr CHR ''_'')"

definition halo_finder_ok :: "string option \<Rightarrow> string \<Rightarrow> bool" where
  "halo_finder_ok halo_finder c =
     (case halo_finder of
        None \<Rightarrow> True
      | Some hf \<Rightarrow> py_slice c (- 11 - int (length hf)) (- 11) = hf)"

section \<open>Numbers and their text\<close>

text \<open>
  Python floats are modelled by exact rationals: rounding, overflow and the special
  values are outside the model. \<open>py_float\<close> is \<open>float(s)\<close> for a string: surrounding
  whitespace is stripped, then an optional sign, digits with an optional point (at least
  one digit), and an optional exponent are read; every other string raises
  \<open>ValueError\<close>. The literals \<open>inf\<close> and \<open>nan\<close>, which denote no rational, have no
  value in the model and are treated like the strings that are no numeral.
\<close>

definition is_space :: "char \<Rightarrow> bool" where
  "is_space c = (c = CHR '' '' \<or> c = CHR 0x09 \<or> c = CHR 0x0A \<or> c = CHR 0x0B
                  \<or> c = CHR 0x0C \<or> c = CHR 0x0D)"

definition strip :: "string \<Rightarrow> string" where
  "strip s = rev (dropWhile is_space (rev (dropWhile is_space s)))"

definition digit_val :: "char \<Rightarrow> nat option" where
  "digit_val c =
     (let code = (of_char c :: nat)
      in if 48 \<le> code \<and> code \<le> 57 then Some (code - 48) else None)"

definition is_digit :: "char \<Rightarrow> bool" where
  "is_digit c = (digit_val c \<noteq> None)"

fun digits_val :: "nat \<Rightarrow> string \<Rightarrow> nat" where
  "digits_val acc [] = acc"
| "digits_val acc (c # cs) =
     digits_val (10 * acc + (case digit_val c of None \<Rightarrow> 0 | Some d \<Rightarrow> d)) cs"

text \<open>An optional sign: whether it is a minus, and the rest of the string.\<close>

fun read_sign :: "string \<Rightarrow> bool \<times> string" where
  "read_sign [] = (False, [])"
| "read_sign (c # cs) =
     (if c = CHR ''-'' then (True, cs)
      else if c = CHR ''+'' then (False, cs)
      else (False, c # cs))"

text \<open>The exponent part: empty, or \<open>e\<close>/\<open>E\<close>, an optional sign and at least one digit.\<close>

definition read_exponent :: "string \<Rightarrow> int option" where
  "read_exponent s =
     (case s of
        [] \<Rightarrow> Some 0
      | c # cs \<Rightarrow>
          if c = CHR ''e'' \<or> c = CHR ''E''
          then (let (neg, ds) = read_sign cs
                in if ds \<noteq> [] \<and> list_all is_digit ds
                   then Some (if neg then - int (digits_val 0 ds) else int (digits_val 0 ds))
                   else None)
          else None)"

definition py_float :: "string \<Rightarrow> error + rat" where
  "py_float s =
     (let (neg, body) = read_sign (strip s);
          ip = takeWhile is_digit body;
          r1 = dropWhile is_digit body;
          (fp, r2) = (case r1 of
                        [] \<Rightarrow> ([], r1)
                      | c # cs \<Rightarrow>
                          if c = CHR ''.'' then (takeWhile is_digit cs, dropWhile is_digit cs)
                          else ([], r1))
      in if ip = [] \<and> fp = [] then Inl ValueError
         else (case read_exponent r2 of
                 None \<Rightarrow> Inl ValueError
               | Some ex \<Rightarrow>
                   (let mag = of_nat (digits_val 0 (ip @ fp)) / 10 ^ length fp * 10 powi ex
                    in Inr (if neg then - mag else mag))))"

text \<open>\<open>str\<close> of a Python integer.\<close>

fun digit_char :: "nat \<Rightarrow> char" where
  "digit_char d = ''0123456789'' ! d"

fun str_nat :: "nat \<Rightarrow> string" where
  "str_nat n = (if n < 10 then [digit_char n] else str_nat (n div 10) @ [digit_char (n mod 10)])"

definition str_int :: "int \<Rightarrow> string" where
  "str_int i = (if i < 0 then CHR ''-'' # str_nat (nat (- i)) else str_nat (nat i))"

text \<open>\<open>np.round\<close> to an integer: halves go to the even neighbour.\<close>

definition np_round :: "rat \<Rightarrow> rat" where
  "np_round x =
     (let f = \<lfloor>x\<rfloor>; d = x - of_int f
      in if d < 1 / 2 then of_int f
         else if 1 / 2 < d then of_int (f + 1)
         else if even f then of_int f else of_int (f + 1))"

section \<open>\<open>Catalog_Manager.numptcl_to_string\<close>\<close>

text \<open>
  The \<open>while\<close> loop that looks for the order of magnitude: it returns the value of
  \<open>ipower\<close> when the loop is left.
\<close>

function oom_loop :: "rat \<Rightarrow> nat \<Rightarrow> nat" where
  "oom_loop numptcl ipower =
     (if np_round (numptcl / 10 ^ ipower) < 10 then ipower + 1
      else oom_loop numptcl (ipower + 1))"
  by pat_completeness auto

lemma np_round_le: "np_round x \<le> x + 1 / 2"
  unfolding np_round_def Let_def
  by (auto simp: field_simps) linarith+

lemma ex_less_power10: "\<exists>k. (x::rat) < 10 ^ k"
proof -
  obtain n :: nat where n: "x < of_nat n" using reals_Archimedean2 by blast
  have "n < 10 ^ n" by (rule power_gt_expt) simp
  then have "(of_nat n :: rat) < of_nat (10 ^ n)" by (simp only: of_nat_less_iff)
  then have "(of_nat n :: rat) < 10 ^ n" by simp
  with n show ?thesis by (meson less_trans)
qed

lemma oom_continue_bound:
  assumes "\<not> np_round (numptcl / 10 ^ ipower) < 10"
  shows "ipower < (LEAST k. numptcl < 10 ^ k)"
proof -
  have pos: "(0::rat) < 10 ^ ipower" by simp
  have "10 \<le> numptcl / 10 ^ ipower + 1 / 2"
    using assms np_round_le [of "numptcl / 10 ^ ipower"] by linarith
  then have "19 / 2 \<le> numptcl / 10 ^ ipower" by linarith
  then have "19 / 2 * 10 ^ ipower \<le> numptcl"
    using pos by (simp add: pos_le_divide_eq)
  then have big: "10 ^ ipower < numptcl" using pos by linarith
  have least: "numptcl < 10 ^ (LEAST k. numptcl < 10 ^ k)"
    using ex_less_power10 [of numptcl] by (metis (mono_tags, lifting) LeastI_ex)
  show ?thesis
  proof (rule ccontr)
    assume "\<not> ipower < (LEAST k. numptcl < 10 ^ k)"
    then have "(LEAST k. numptcl < 10 ^ k) \<le> ipower" by simp
    then have "(10::rat) ^ (LEAST k. numptcl < 10 ^ k) \<le> 10 ^ ipower"
      by (simp add: power_increasing)
    with least big show False by linarith
  qed
qed

termination oom_loop
proof (relation "measure (\<lambda>(numptcl, ipower). (LEAST k. numptcl < 10 ^ k) - ipower)")
  show "wf (measure (\<lambda>(numptcl, ipower). (LEAST k. numptcl < 10 ^ k) - ipower))" by simp
next
  fix numptcl :: rat and ipower :: nat
  assume "\<not> np_round (numptcl / 10 ^ ipower) < 10"
  then have "ipower < (LEAST k. numptcl < 10 ^ k)" by (rule oom_continue_bound)
  then show "((numptcl, ipower + 1), numptcl, ipower)
      \<in> measure (\<lambda>(numptcl, ipower). (LEAST k. numptcl < 10 ^ k) - ipower)"
    by simp
qed

definition numptcl_to_string :: "rat \<Rightarrow> string" where
  "numptcl_to_string numptcl =
     (let ipower = oom_loop numptcl 0;
          power = int ipower - 1;
          powfactor = 10 powi power;
          reduced_numptcl = np_round (numptcl / powfactor);
          ce = str_int power;
          cp = str_int \<lfloor>reduced_numptcl\<rfloor>
      in cp @ ''e'' @ ce)"

section \<open>\<open>Catalog_Manager.find_nearest_snapshot_in_cache\<close>\<close>

text \<open>
  A call of \<open>warnings.warn\<close> is an element of the list of warnings that the model returns
  beside the result. \<open>UserWarningFloat msg x\<close> is the warning whose message is \<open>msg\<close>
  followed by \<open>str(x)\<close> for the float \<open>x\<close>.
\<close>

datatype warning =
    UserWarning string
  | UserWarningFloat string rat

text \<open>The check of the arguments \<open>scale_factor\<close> and \<open>redshift\<close> (lines 323 to 330).\<close>

definition requested_scale_factor :: "rat option \<Rightarrow> rat option \<Rightarrow> error + rat" where
  "requested_scale_factor scale_factor redshift =
     (case scale_factor of
        None \<Rightarrow>
          (case redshift of
             None \<Rightarrow> Inl (IOError ''Must specify either a redshift or a scale factor'')
           | Some z \<Rightarrow> if 1 + z = 0 then Inl ZeroDivisionError else Inr (1 / (1 + z)))
      | Some a \<Rightarrow>
          (case redshift of
             None \<Rightarrow> Inr a
           | Some z \<Rightarrow> Inl (IOError ''Cannot specify both a redshift and a scale factor'')))"

text \<open>
  The list comprehension \<open>[float(a[first:last]) for a in relevant_catalogs]\<close>: the first
  substring that is no numeral raises.
\<close>

fun available_snapshots_of :: "int \<Rightarrow> int \<Rightarrow> string list \<Rightarrow> error + rat list" where
  "available_snapshots_of first_index last_index [] = Inr []"
| "available_snapshots_of first_index last_index (a # rest) =
     (case py_float (py_slice a first_index last_index) of
        Inl e \<Rightarrow> Inl e
      | Inr v \<Rightarrow>
          (case available_snapshots_of first_index last_index rest of
             Inl e \<Rightarrow> Inl e
           | Inr vs \<Rightarrow> Inr (v # vs)))"

text \<open>
  \<open>argmin\<close> of a numpy array: the index of the first occurrence of the minimum;
  \<open>ValueError\<close> on an empty array. \<open>argmin_scan ds i best best_index\<close> scans the rest
  \<open>ds\<close> of the array, whose first element has index \<open>i\<close>.
\<close>

fun argmin_scan :: "rat list \<Rightarrow> nat \<Rightarrow> rat \<Rightarrow> nat \<Rightarrow> nat" where
  "argmin_scan [] i best best_index = best_index"
| "argmin_scan (d # ds) i best best_index =
     (if d < best then argmin_scan ds (Suc i) d i
      else argmin_scan ds (Suc i) best best_index)"

definition np_argmin :: "rat list \<Rightarrow> error + nat" where
  "np_argmin ds = (case ds of [] \<Rightarrow> Inl ValueError | d # rest \<Rightarrow> Inr (argmin_scan rest 1 d 0))"

text \<open>
  The parameters \<open>list_of_catalogs_in_cache\<close> and \<open>adiff_tol\<close> stand for
  \<open>configuration.list_of_catalogs_in_cache\<close> and \<open>defaults.scale_factor_difference_tol\<close>,
  which are not part of the sources. The result is the returned pair and the warnings.
\<close>

definition find_nearest_snapshot_in_cache ::
  "(string option \<Rightarrow> string list) \<Rightarrow> rat \<Rightarrow> string option \<Rightarrow> rat option \<Rightarrow> rat option
     \<Rightarrow> string option \<Rightarrow> string option
     \<Rightarrow> error + ((string option \<times> rat option) \<times> warning list)" where
  "find_nearest_snapshot_in_cache list_of_catalogs_in_cache adiff_tol catalog_type0
       scale_factor0 redshift simname halo_finder0 =
   (let catalog_type = fix_pluralization catalog_type0 in
    (case requested_scale_factor scale_factor0 redshift of
       Inl e \<Rightarrow> Inl e
     | Inr scale_factor \<Rightarrow>
    (let halo_finder = (if catalog_type = Some ''particles'' then None else halo_finder0) in
    (case identify_relevant_catalogs list_of_catalogs_in_cache catalog_type simname halo_finder of
       Inl e \<Rightarrow> Inl e
     | Inr relevant_catalogs \<Rightarrow>
    (if length relevant_catalogs = 0 \<and> catalog_type = Some ''halos''
     then Inr ((None, None),
               [UserWarning ''Zero halo catalogs in cache match the input simname & halo-finder''])
     else if length relevant_catalogs = 0 \<and> catalog_type = Some ''particles''
     then Inr ((None, None),
               [UserWarning ''Zero particle catalogs in cache match the input simname''])
     else
    (case simname of
       None \<Rightarrow> Inl TypeError
     | Some sn \<Rightarrow>
    (let first_scale_factor_index = int (length sn) + 2;
         last_scale_factor_index = first_scale_factor_index + 6 in
    (case available_snapshots_of first_scale_factor_index last_scale_factor_index
            relevant_catalogs of
       Inl e \<Rightarrow> Inl e
     | Inr available_snapshots \<Rightarrow>
    (case np_argmin (map (\<lambda>v. \<bar>v - scale_factor\<bar>) available_snapshots) of
       Inl e \<Rightarrow> Inl e
     | Inr idx_nearest_snapshot \<Rightarrow>
    (case py_index available_snapshots (int idx_nearest_snapshot) of
       Inl e \<Rightarrow> Inl e
     | Inr nearest_snapshot \<Rightarrow>
    (case py_index relevant_catalogs (int idx_nearest_snapshot) of
       Inl e \<Rightarrow> Inl e
     | Inr filename_of_nearest_snapshot \<Rightarrow>
    (let adiff = \<bar>nearest_snapshot - scale_factor\<bar>;
         warns = (if adiff > adiff_tol
                  then [UserWarningFloat
                          ''Closest match to desired snapshot has a scale factor of ''
                          nearest_snapshot]
                  else [])
     in Inr ((Some filename_of_nearest_snapshot, Some nearest_snapshot), warns)))))))))))))"

section \<open>\<open>Catalog_Manager.__init__\<close> and \<open>Catalog_Manager.load_catalog\<close>\<close>

text \<open>
  The module \<open>defaults\<close> is not part of the sources: the constants that \<open>__init__\<close> reads
  from it are the fields of a record. \<open>str_float\<close>, the text that Python's \<open>str\<close> gives
  for a float, is a parameter. The two filenames are the fields of the manager that
  \<open>load_catalog\<close> reads; the dictionary \<open>slac_urls\<close> is used by none of the modelled
  methods and is left out.
\<close>

record defaults =
  default_simulation_name :: string
  default_scale_factor :: rat
  default_halo_finder :: string
  default_numptcl :: rat

record catalog_manager =
  default_halo_catalog_filename :: string
  default_particle_catalog_filename :: string

text \<open>\<open>np.round(x, decimals)\<close>.\<close>

definition np_round_decimals :: "rat \<Rightarrow> nat \<Rightarrow> rat" where
  "np_round_decimals x decimals = np_round (x * 10 ^ decimals) / 10 ^ decimals"

definition Catalog_Manager_init :: "(rat \<Rightarrow> string) \<Rightarrow> defaults \<Rightarrow> catalog_manager" where
  "Catalog_Manager_init str_float d =
     \<lparr> default_halo_catalog_filename =
         default_simulation_name d @ ''_a'' @
         str_float (np_round_decimals (default_scale_factor d) 4) @ ''_'' @
         default_halo_finder d @ ''_halos.fits'',
       default_particle_catalog_filename =
         default_simulation_name d @ ''_a'' @
         str_float (np_round_decimals (default_scale_factor d) 4) @ ''_'' @
         numptcl_to_string (default_numptcl d) @ ''_particles.fits'' \<rparr>"

text \<open>\<open>os.path.join\<close> of two components (\<open>posixpath\<close>).\<close>

definition os_path_join :: "string \<Rightarrow> string \<Rightarrow> string" where
  "os_path_join a b =
     (if b \<noteq> [] \<and> hd b = CHR ''/'' then b
      else if a = [] \<or> last a = CHR ''/'' then a @ b
      else a @ ''/'' @ b)"

text \<open>
  The world outside the program: the regular files of the local file system with their
  contents, the documents that the remote server holds, and the list of the URLs that
  have been opened so far, in order. \<open>urllib2.urlopen\<close> adds the URL to that list and
  raises \<open>URLError\<close> when the server has no such document. Writing a file always
  succeeds in the model.
\<close>

record world =
  files :: "string \<Rightarrow> string option"
  remote :: "string \<Rightarrow> string option"
  requests :: "string list"

definition isfile :: "world \<Rightarrow> string \<Rightarrow> bool" where
  "isfile w path = (files w path \<noteq> None)"

definition urlopen :: "world \<Rightarrow> string \<Rightarrow> (error + string) \<times> world" where
  "urlopen w url =
     (let w' = w\<lparr>requests := requests w @ [url]\<rparr>
      in case remote w url of
           None \<Rightarrow> (Inl URLError, w')
         | Some content \<Rightarrow> (Inr content, w'))"

definition write_file :: "world \<Rightarrow> string \<Rightarrow> string \<Rightarrow> world" where
  "write_file w path content = w\<lparr>files := (files w)(path \<mapsto> content)\<rparr>"

text \<open>
  \<open>fits.open(path)\<close> followed by \<open>Table(hdulist[1].data)\<close>: the parameter \<open>read_table\<close>
  is the external reader, from the contents of a file to a table or an error. The file
  is there at both calls of the source.
\<close>

definition fits_open_table ::
  "(string \<Rightarrow> error + 'table) \<Rightarrow> world \<Rightarrow> string \<Rightarrow> error + 'table" where
  "fits_open_table read_table w path =
     (case files w path of
        None \<Rightarrow> Inl (IOError ''No such file or directory'')
      | Some content \<Rightarrow> read_table content)"

text \<open>
  The parameter \<open>get_catalogs_dir\<close> stands for \<open>configuration.get_catalogs_dir\<close>. The
  result is what the method returns or raises (\<open>None\<close> is Python's \<open>None\<close>), and the
  world after the call. In the download branch the first \<open>if\<close> of the source assigns
  \<open>catalog_type\<close>; the second \<open>if\<close> with its \<open>else\<close> follows it independently.
\<close>

definition load_catalog ::
  "(string \<Rightarrow> string) \<Rightarrow> (string \<Rightarrow> error + 'table) \<Rightarrow> catalog_manager \<Rightarrow> world
     \<Rightarrow> string \<Rightarrow> string option \<Rightarrow> bool \<Rightarrow> string
     \<Rightarrow> (error + 'table option) \<times> world" where
  "load_catalog get_catalogs_dir read_table self w dirname filename0 download_yn url =
   (let filename = (case filename0 of
                      None \<Rightarrow> default_halo_catalog_filename self
                    | Some f \<Rightarrow> f) in
    (if isfile w (os_path_join dirname filename)
     then (case fits_open_table read_table w (os_path_join dirname filename) of
             Inl e \<Rightarrow> (Inl e, w)
           | Inr catalog \<Rightarrow> (Inr (Some catalog), w))
     else if download_yn = False then (Inr None, w)
     else
    (let catalog_type1 = (if filename = default_halo_catalog_filename self
                          then Some ''halos'' else None) in
    (if filename = default_particle_catalog_filename self
     then
       (let catalog_type = ''particles'';
            remote_filename = os_path_join url filename in
        (case urlopen w remote_filename of
           (Inl e, w1) \<Rightarrow> (Inl e, w1)
         | (Inr content, w1) \<Rightarrow>
        (let output_directory = get_catalogs_dir catalog_type;
             output_filename = os_path_join output_directory filename;
             w2 = write_file w1 output_filename content in
         (case fits_open_table read_table w2 output_filename of
            Inl e \<Rightarrow> (Inl e, w2)
          | Inr catalog \<Rightarrow> (Inr (Some catalog), w2)))))
     else (Inl (IOError ''Input filename does not match one of the provided default catalogs''),
           w)))))"

section \<open>A cache with one directory for each kind\<close>

text \<open>
  A sample of the listing parameter, used where a concrete cache is needed: the
  filenames of the halo directory, those of the particle directory, and nothing for any
  other kind.
\<close>

definition cache_dirs :: "string list \<Rightarrow> string list \<Rightarrow> string option \<Rightarrow> string list" where
  "cache_dirs halo_files particle_files catalog_type =
     (if catalog_type = Some ''halos'' then halo_files
      else if catalog_type = Some ''particles'' then particle_files
      else [])"

section \<open>Slices of strings\<close>

lemma py_slice_prefix: "py_slice c 0 (int k) = take k c"
  by (simp add: py_slice_def py_bound_def Let_def min_def)

lemma py_index_nat:
  "py_index c (int k) = (if k < length c then Inr (c ! k) else Inl IndexError)"
  by (simp add: py_index_def Let_def)

lemma prefix_mask_update:
  "length pre = n \<Longrightarrow> (pre @ b # ms)[n := v] = pre @ v # ms"
  by (simp add: list_update_append)

lemma impose_catalog_type_enum:
  "length pre = n \<Longrightarrow> length ms = length xs \<Longrightarrow>
   impose_catalog_type ct (enumerate n xs) (pre @ ms)
     = pre @ map2 (\<lambda>c b. b \<and> kind_ok (Some ct) c) xs ms"
proof (induction xs arbitrary: n pre ms)
  case Nil
  then show ?case by simp
next
  case (Cons x xs)
  then obtain b ms' where ms: "ms = b # ms'" and len: "length ms' = length xs"
    by (cases ms) auto
  have step: "impose_catalog_type ct (enumerate (Suc n) xs) ((pre @ [v]) @ ms')
      = (pre @ [v]) @ map2 (\<lambda>c b. b \<and> kind_ok (Some ct) c) xs ms'" for v
    using Cons.IH [of "pre @ [v]" "Suc n" ms'] Cons.prems(1) len by simp
  show ?case
    using step [of False] step [of b] Cons.prems(1)
    by (simp add: ms prefix_mask_update kind_ok_def)
qed

lemma impose_halo_finder_enum:
  "length pre = n \<Longrightarrow> length ms = length xs \<Longrightarrow>
   impose_halo_finder hf (enumerate n xs) (pre @ ms)
     = pre @ map2 (\<lambda>c b. b \<and> halo_finder_ok (Some hf) c) xs ms"
proof (induction xs arbitrary: n pre ms)
  case Nil
  then show ?case by simp
next
  case (Cons x xs)
  then obtain b ms' where ms: "ms = b # ms'" and len: "length ms' = length xs"
    by (cases ms) auto
  have step: "impose_halo_finder hf (enumerate (Suc n) xs) ((pre @ [v]) @ ms')
      = (pre @ [v]) @ map2 (\<lambda>c b. b \<and> halo_finder_ok (Some hf) c) xs ms'" for v
    using Cons.IH [of "pre @ [v]" "Suc n" ms'] Cons.prems(1) len by simp
  show ?case
    using step [of False] step [of b] Cons.prems(1)
    by (simp add: ms prefix_mask_update halo_finder_ok_def)
qed

lemma take_eq_self_short: "take (length sn) c = sn \<Longrightarrow> length c \<le> length sn \<Longrightarrow> c = sn"
  by simp

lemma impose_simname_enum:
  "length pre = n \<Longrightarrow> length ms = length xs \<Longrightarrow> sn \<notin> set xs \<Longrightarrow>
   impose_simname sn (enumerate n xs) (pre @ ms)
     = Inr (pre @ map2 (\<lambda>c b. b \<and> simname_ok (Some sn) c) xs ms)"
proof (induction xs arbitrary: n pre ms)
  case Nil
  then show ?case by simp
next
  case (Cons x xs)
  then obtain b ms' where ms: "ms = b # ms'" and len: "length ms' = length xs"
    by (cases ms) auto
  from Cons.prems have notin: "sn \<notin> set xs" and xne: "x \<noteq> sn" by auto
  have step: "impose_simname sn (enumerate (Suc n) xs) ((pre @ [v]) @ ms')
      = Inr ((pre @ [v]) @ map2 (\<lambda>c b. b \<and> simname_ok (Some sn) c) xs ms')" for v
    using Cons.IH [of "pre @ [v]" "Suc n" ms'] Cons.prems(1) len notin by simp
  have long: "take (length sn) x = sn \<Longrightarrow> length sn < length x"
    using xne take_eq_self_short [of sn x] by fastforce
  show ?case
    using step [of False] step [of b] Cons.prems(1) long
    by (simp add: ms prefix_mask_update simname_ok_def py_slice_prefix py_index_nat)
qed

lemma impose_simname_raises:
  "sn \<in> set xs \<Longrightarrow> impose_simname sn (enumerate n xs) file_mask = Inl IndexError"
proof (induction xs arbitrary: n file_mask)
  case Nil
  then show ?case by simp
next
  case (Cons x xs)
  show ?case
  proof (cases "x = sn")
    case True
    then show ?thesis by (simp add: py_slice_prefix py_index_nat)
  next
    case False
    with Cons.prems have "sn \<in> set xs" by simp
    then have "\<And>m. impose_simname sn (enumerate (Suc n) xs) m = Inl IndexError"
      using Cons.IH by blast
    then show ?thesis
      by (simp add: py_slice_prefix py_index_nat)
  qed
qed

lemma mask_select_map2:
  "length ms = length xs \<Longrightarrow>
   mask_select xs (map2 (\<lambda>c b. b \<and> P c) xs ms) = filter P (mask_select xs ms)"
proof (induction xs arbitrary: ms)
  case Nil
  then show ?case by (simp add: mask_select_def)
next
  case (Cons x xs)
  then obtain b ms' where ms: "ms = b # ms'" and len: "length ms' = length xs"
    by (cases ms) auto
  show ?case using Cons.IH [OF len] by (simp add: ms mask_select_def)
qed

lemma mask_select_all: "mask_select xs (replicate (length xs) True) = xs"
  by (induction xs) (simp_all add: mask_select_def)

lemma filter_chain3:
  "filter R (filter Q (filter P xs)) = filter (\<lambda>c. P c \<and> Q c \<and> R c) xs"
  by (induction xs) auto

lemma map2_second: "length ms = length xs \<Longrightarrow> map2 (\<lambda>c b. b) xs ms = ms"
proof (induction xs arbitrary: ms)
  case Nil
  then show ?case by simp
next
  case (Cons x xs)
  then show ?case by (cases ms) simp_all
qed

lemma impose_catalog_type_all:
  "length ms = length xs \<Longrightarrow>
   impose_catalog_type ct (enumerate 0 xs) ms = map2 (\<lambda>c b. b \<and> kind_ok (Some ct) c) xs ms"
  using impose_catalog_type_enum [of "[]" 0 ms xs ct] by simp

lemma impose_halo_finder_all:
  "length ms = length xs \<Longrightarrow>
   impose_halo_finder hf (enumerate 0 xs) ms = map2 (\<lambda>c b. b \<and> halo_finder_ok (Some hf) c) xs ms"
  using impose_halo_finder_enum [of "[]" 0 ms xs hf] by simp

lemma impose_simname_all:
  "length ms = length xs \<Longrightarrow> sn \<notin> set xs \<Longrightarrow>
   impose_simname sn (enumerate 0 xs) ms = Inr (map2 (\<lambda>c b. b \<and> simname_ok (Some sn) c) xs ms)"
  using impose_simname_enum [of "[]" 0 ms xs sn] by simp

lemma kind_step:
  "(case ct of None \<Rightarrow> replicate (length xs) True
     | Some t \<Rightarrow> impose_catalog_type t (enumerate 0 xs) (replicate (length xs) True))
   = map (kind_ok ct) xs"
proof (cases ct)
  case None
  have "replicate (length xs) True = map (kind_ok None) xs"
    by (induction xs) (simp_all add: kind_ok_def)
  then show ?thesis by (simp add: None)
next
  case (Some t)
  have "map2 (\<lambda>c b. b \<and> kind_ok (Some t) c) xs (replicate (length xs) True) = map (kind_ok (Some t)) xs"
    by (induction xs) simp_all
  then show ?thesis by (simp add: Some impose_catalog_type_all)
qed

lemma simname_step:
  "length ms = length xs \<Longrightarrow>
   (case simname of None \<Rightarrow> Inr ms | Some sn \<Rightarrow> impose_simname sn (enumerate 0 xs) ms)
   = (if (case simname of None \<Rightarrow> False | Some sn \<Rightarrow> sn \<in> set xs) then Inl IndexError
      else Inr (map2 (\<lambda>c b. b \<and> simname_ok simname c) xs ms))"
proof (cases simname)
  case None
  assume "length ms = length xs"
  then have "map2 (\<lambda>c b. b) xs ms = ms"
    by (rule map2_second)
  then show ?thesis by (simp add: None simname_ok_def)
next
  case (Some sn)
  assume "length ms = length xs"
  then show ?thesis
    by (simp add: Some impose_simname_all impose_simname_raises)
qed

lemma halo_finder_step:
  "length ms = length xs \<Longrightarrow>
   (case hf of None \<Rightarrow> ms | Some h \<Rightarrow> impose_halo_finder h (enumerate 0 xs) ms)
   = map2 (\<lambda>c b. b \<and> halo_finder_ok hf c) xs ms"
proof (cases hf)
  case None
  assume "length ms = length xs"
  then have "map2 (\<lambda>c b. b) xs ms = ms"
    by (rule map2_second)
  then show ?thesis by (simp add: None halo_finder_ok_def)
next
  case (Some h)
  assume "length ms = length xs"
  then show ?thesis by (simp add: Some impose_halo_finder_all)
qed

lemma mask_select_map: "mask_select xs (map P xs) = filter P xs"
  by (induction xs) (simp_all add: mask_select_def)

lemma identify_relevant_catalogs_eq:
  "identify_relevant_catalogs L ct simname hf =
     (if (case simname of None \<Rightarrow> False | Some sn \<Rightarrow> sn \<in> set (L (fix_pluralization ct)))
      then Inl IndexError
      else Inr (filter (\<lambda>c. kind_ok (fix_pluralization ct) c \<and> simname_ok simname c
                            \<and> halo_finder_ok hf c) (L (fix_pluralization ct))))"
proof -
  define xs where "xs = L (fix_pluralization ct)"
  define m1 where "m1 = map (kind_ok (fix_pluralization ct)) xs"
  define m2 where "m2 = map2 (\<lambda>c b. b \<and> simname_ok simname c) xs m1"
  have l1: "length m1 = length xs" by (simp add: m1_def)
  have l2: "length m2 = length xs" by (simp add: m2_def l1)
  have sel: "mask_select xs (map2 (\<lambda>c b. b \<and> halo_finder_ok hf c) xs m2)
      = filter (\<lambda>c. kind_ok (fix_pluralization ct) c \<and> simname_ok simname c \<and> halo_finder_ok hf c) xs"
    unfolding m2_def m1_def
    by (simp add: mask_select_map2 mask_select_map filter_chain3)
  show ?thesis
    unfolding identify_relevant_catalogs_def Let_def xs_def [symmetric]
    unfolding kind_step m1_def [symmetric]
    unfolding simname_step [OF l1] m2_def [symmetric]
    using sel by (simp add: halo_finder_step [OF l2])
qed

section \<open>The filter of \<open>identify_relevant_catalogs\<close>\<close>

text \<open>
  Claim C5. Filtering in \<open>identify_relevant_catalogs\<close> is the conjunction of the three
  string predicates: unless the simulation-name test raises (the listing holds the
  simulation name itself), the result is the listing, in order, restricted to the
  filenames that pass the kind suffix test, the simulation-name prefix test and the
  halo-finder test, each test being vacuous when its argument is not supplied. The
  filename \<open>bolshoi_a0.7000_rockstar_halos.fits\<close> is kept for halos, bolshoi, rockstar
  and dropped for halos, bolshoi, bdm.
\<close>

theorem identify_relevant_catalogs_conjunctive:
  "identify_relevant_catalogs L ct simname hf =
     (if (case simname of None \<Rightarrow> False | Some sn \<Rightarrow> sn \<in> set (L (fix_pluralization ct)))
      then Inl IndexError
      else Inr (filter (\<lambda>c. kind_ok (fix_pluralization ct) c \<and> simname_ok simname c
                            \<and> halo_finder_ok hf c) (L (fix_pluralization ct))))
   \<and> identify_relevant_catalogs (cache_dirs [''bolshoi_a0.7000_rockstar_halos.fits''] [])
         (Some ''halos'') (Some ''bolshoi'') (Some ''rockstar'')
       = Inr [''bolshoi_a0.7000_rockstar_halos.fits'']
   \<and> identify_relevant_catalogs (cache_dirs [''bolshoi_a0.7000_rockstar_halos.fits''] [])
         (Some ''halos'') (Some ''bolshoi'') (Some ''bdm'')
       = Inr []"
proof (intro conjI)
  show "identify_relevant_catalogs L ct simname hf =
     (if (case simname of None \<Rightarrow> False | Some sn \<Rightarrow> sn \<in> set (L (fix_pluralization ct)))
      then Inl IndexError
      else Inr (filter (\<lambda>c. kind_ok (fix_pluralization ct) c \<and> simname_ok simname c
                            \<and> halo_finder_ok hf c) (L (fix_pluralization ct))))"
    by (rule identify_relevant_catalogs_eq)
next
  show "identify_relevant_catalogs (cache_dirs [''bolshoi_a0.7000_rockstar_halos.fits''] [])
         (Some ''halos'') (Some ''bolshoi'') (Some ''rockstar'')
       = Inr [''bolshoi_a0.7000_rockstar_halos.fits'']"
    by (simp add: identify_relevant_catalogs_def fix_pluralization_def py_slice_def
          py_slice_from_def py_bound_def py_index_def mask_select_def enumerate_eq_zip
          cache_dirs_def Let_def)
next
  show "identify_relevant_catalogs (cache_dirs [''bolshoi_a0.7000_rockstar_halos.fits''] [])
         (Some ''halos'') (Some ''bolshoi'') (Some ''bdm'')
       = Inr []"
    by (simp add: identify_relevant_catalogs_def fix_pluralization_def py_slice_def
          py_slice_from_def py_bound_def py_index_def mask_select_def enumerate_eq_zip
          cache_dirs_def Let_def)
qed

theorem identify_relevant_catalogs_conjunctive_witness:
  "identify_relevant_catalogs
     (cache_dirs [''bolshoi_a0.7000_rockstar_halos.fits'', ''bolshoi_a0.7000_bdm_halos.fits'',
                  ''consuelo_a0.7000_rockstar_halos.fits'', ''bolshoi_a0.5000_rockstar_halos.fits'']
                 [''bolshoi_a0.7000_2e5_particles.fits''])
     (Some ''halo'') (Some ''bolshoi'') (Some ''rockstar'')
   = Inr [''bolshoi_a0.7000_rockstar_halos.fits'', ''bolshoi_a0.5000_rockstar_halos.fits'']"
  using identify_relevant_catalogs_conjunctive
    [of "cache_dirs [''bolshoi_a0.7000_rockstar_halos.fits'', ''bolshoi_a0.7000_bdm_halos.fits'',
                     ''consuelo_a0.7000_rockstar_halos.fits'', ''bolshoi_a0.5000_rockstar_halos.fits'']
                    [''bolshoi_a0.7000_2e5_particles.fits'']"
        "Some ''halo''" "Some ''bolshoi''" "Some ''rockstar''"]
  by (simp add: fix_pluralization_def cache_dirs_def kind_ok_def simname_ok_def
        halo_finder_ok_def py_slice_def py_slice_from_def py_bound_def py_index_def Let_def)

text \<open>
  Claim C10, as the source has it. With a simulation name supplied,
  \<open>identify_relevant_catalogs\<close> raises \<open>IndexError\<close> exactly when the listing holds a
  filename equal to the simulation name: only then is \<open>c[len(simname)]\<close> evaluated out of
  range. Otherwise it returns, and every filename it returns is longer than the
  simulation name: a shorter filename, or one of the same length that differs, fails the
  prefix comparison and is excluded.
\<close>

theorem identify_relevant_catalogs_index_error:
  "(identify_relevant_catalogs L ct (Some sn) hf = Inl IndexError
      \<longleftrightarrow> sn \<in> set (L (fix_pluralization ct)))
   \<and> (sn \<notin> set (L (fix_pluralization ct)) \<longrightarrow>
        (\<exists>r. identify_relevant_catalogs L ct (Some sn) hf = Inr r
             \<and> (\<forall>c \<in> set r. length sn < length c)))"
proof -
  have long: "length sn < length c" if "simname_ok (Some sn) c" for c
    using that by (simp add: simname_ok_def py_index_nat split: if_splits)
  show ?thesis
    by (auto simp: identify_relevant_catalogs_eq long)
qed

theorem identify_relevant_catalogs_index_error_witness:
  "identify_relevant_catalogs (cache_dirs [''bolshoi_a0.7000_rockstar_halos.fits'', ''bolshoi''] [])
     (Some ''halos'') (Some ''bolshoi'') None = Inl IndexError
   \<and> (\<exists>r. identify_relevant_catalogs (cache_dirs [''bolshoi_a0.7000_rockstar_halos.fits'', ''abc''] [])
            (Some ''halos'') (Some ''bolshoi'') None = Inr r)"
  using identify_relevant_catalogs_index_error
    [of "cache_dirs [''bolshoi_a0.7000_rockstar_halos.fits'', ''bolshoi''] []"
        "Some ''halos''" "''bolshoi''" None]
    identify_relevant_catalogs_index_error
    [of "cache_dirs [''bolshoi_a0.7000_rockstar_halos.fits'', ''abc''] []"
        "Some ''halos''" "''bolshoi''" None]
  by (auto simp add: fix_pluralization_def cache_dirs_def)

text \<open>
  The claim C10 as it was stated fails: a listing whose filenames are not longer than the
  simulation name, and differ from it, is filtered without any error.
\<close>

theorem identify_relevant_catalogs_short_names_counterexample:
  "length ''abc'' \<le> length ''bolshoi'' \<and> length ''bolsho1'' \<le> length ''bolshoi''
   \<and> cache_dirs [''abc'', ''bolsho1''] [] (fix_pluralization (Some ''halos'')) = [''abc'', ''bolsho1'']
   \<and> identify_relevant_catalogs (cache_dirs [''abc'', ''bolsho1''] [])
        (Some ''halos'') (Some ''bolshoi'') None = Inr []"
  by (simp add: identify_relevant_catalogs_def fix_pluralization_def py_slice_def
        py_slice_from_def py_bound_def py_index_def mask_select_def enumerate_eq_zip
        cache_dirs_def Let_def)

section \<open>The nearest snapshot\<close>




lemma fix_pluralization_idem: "fix_pluralization (fix_pluralization ct) = fix_pluralization ct"
  by (simp add: fix_pluralization_def Let_def)


lemmas eval_defs = find_nearest_snapshot_in_cache_def requested_scale_factor_def
  identify_relevant_catalogs_def fix_pluralization_def py_slice_def
  py_slice_from_def py_bound_def py_index_def mask_select_def enumerate_eq_zip
  cache_dirs_def np_argmin_def
  py_float_def strip_def is_space_def is_digit_def digit_val_def read_exponent_def Let_def





text \<open>
  Claim C4, as the source has it. For the kinds halos and particles (singular or
  plural) and a valid scale factor or redshift, a lookup whose filters leave no filename
  returns the pair of nulls with one warning and raises nothing.
\<close>

theorem find_nearest_snapshot_in_cache_zero_matches:
  "(fix_pluralization ct = Some ''halos'' \<or> fix_pluralization ct = Some ''particles'')
     \<and> requested_scale_factor sf z = Inr a
     \<and> identify_relevant_catalogs L (fix_pluralization ct) simname
          (if fix_pluralization ct = Some ''particles'' then None else hf) = Inr []
   \<longrightarrow> find_nearest_snapshot_in_cache L tol ct sf z simname hf
         = Inr ((None, None),
                [UserWarning (if fix_pluralization ct = Some ''halos''
                   then ''Zero halo catalogs in cache match the input simname & halo-finder''
                   else ''Zero particle catalogs in cache match the input simname'')])"
  by (auto simp: find_nearest_snapshot_in_cache_def Let_def)

theorem find_nearest_snapshot_in_cache_zero_matches_witness:
  "find_nearest_snapshot_in_cache
     (cache_dirs [''bolshoi_a0.5000_rockstar_halos.fits''] [''bolshoi_a0.5000_2e5_particles.fits''])
     (1 / 100) (Some ''halo'') None (Some 1) (Some ''consuelo'') (Some ''rockstar'')
   = Inr ((None, None),
          [UserWarning ''Zero halo catalogs in cache match the input simname & halo-finder''])
   \<and> find_nearest_snapshot_in_cache
     (cache_dirs [''bolshoi_a0.5000_rockstar_halos.fits''] [''bolshoi_a0.5000_2e5_particles.fits''])
     (1 / 100) (Some ''particles'') (Some (1 / 2)) None (Some ''consuelo'') (Some ''rockstar'')
   = Inr ((None, None),
          [UserWarning ''Zero particle catalogs in cache match the input simname''])"
  using find_nearest_snapshot_in_cache_zero_matches
    [of "Some ''halo''" None "Some 1" "1 / 2"
        "cache_dirs [''bolshoi_a0.5000_rockstar_halos.fits''] [''bolshoi_a0.5000_2e5_particles.fits'']"
        "Some ''consuelo''" "Some ''rockstar''" "1 / 100"]
    find_nearest_snapshot_in_cache_zero_matches
    [of "Some ''particles''" "Some (1 / 2)" None "1 / 2"
        "cache_dirs [''bolshoi_a0.5000_rockstar_halos.fits''] [''bolshoi_a0.5000_2e5_particles.fits'']"
        "Some ''consuelo''" "Some ''rockstar''" "1 / 100"]
  by (simp add: eval_defs)

text \<open>
  The claim C4 as it was stated, for any kind, fails: for another kind the source has no
  branch that returns, and \<open>argmin\<close> of the empty array raises.
\<close>

theorem find_nearest_snapshot_in_cache_other_kind_counterexample:
  "requested_scale_factor (Some 1) None = Inr 1
   \<and> identify_relevant_catalogs (cache_dirs [''bolshoi_a0.5000_rockstar_halos.fits''] [])
        (fix_pluralization (Some ''trees'')) (Some ''bolshoi'') (Some ''rockstar'') = Inr []
   \<and> find_nearest_snapshot_in_cache (cache_dirs [''bolshoi_a0.5000_rockstar_halos.fits''] [])
        (1 / 100) (Some ''trees'') (Some 1) None (Some ''bolshoi'') (Some ''rockstar'')
      = Inl ValueError"
  by (simp add: eval_defs)




section \<open>The text of a number of particles\<close>


section \<open>Loading a catalog\<close>

lemma default_filenames_differ:
  "x @ ''_halos.fits'' \<noteq> y @ ''_particles.fits''"
proof
  assume "x @ ''_halos.fits'' = y @ ''_particles.fits''"
  then have "rev (x @ ''_halos.fits'') = rev (y @ ''_particles.fits'')" by simp
  then have "take 7 (rev (x @ ''_halos.fits'')) = take 7 (rev (y @ ''_particles.fits''))" by simp
  then show False by simp
qed

lemma Catalog_Manager_init_distinct:
  "default_halo_catalog_filename (Catalog_Manager_init str_float d)
     \<noteq> default_particle_catalog_filename (Catalog_Manager_init str_float d)"
proof -
  have "(default_simulation_name d @ ''_a'' @
         str_float (np_round_decimals (default_scale_factor d) 4) @ ''_'' @
         default_halo_finder d) @ ''_halos.fits''
     \<noteq> (default_simulation_name d @ ''_a'' @
         str_float (np_round_decimals (default_scale_factor d) 4) @ ''_'' @
         numptcl_to_string (default_numptcl d)) @ ''_particles.fits''"
    by (rule default_filenames_differ)
  then show ?thesis by (simp add: Catalog_Manager_init_def)
qed

text \<open>
  Claim C1 fails on the source for the default halo catalog. With downloading allowed and
  the file absent, the manager that \<open>__init__\<close> builds raises the input error for its own
  default halo filename, given explicitly or by the default of the argument: the test
  for the particle filename is an \<open>if\<close> of its own, whose \<open>else\<close> raises. Nothing is
  fetched and the world is left as it was.
\<close>

theorem load_catalog_default_halo_download_fails:
  "files w (os_path_join dirname (default_halo_catalog_filename (Catalog_Manager_init str_float d))) = None
   \<longrightarrow> load_catalog get_catalogs_dir read_table (Catalog_Manager_init str_float d) w dirname
         (Some (default_halo_catalog_filename (Catalog_Manager_init str_float d))) True url
       = (Inl (IOError ''Input filename does not match one of the provided default catalogs''), w)
     \<and> load_catalog get_catalogs_dir read_table (Catalog_Manager_init str_float d) w dirname
         None True url
       = (Inl (IOError ''Input filename does not match one of the provided default catalogs''), w)"
  using Catalog_Manager_init_distinct [of str_float d]
  by (simp add: load_catalog_def isfile_def Let_def)

theorem load_catalog_default_halo_download_fails_witness:
  "load_catalog ((@) ''/cache/'') Inr
     (Catalog_Manager_init (\<lambda>x. ''1.0003'')
        \<lparr>default_simulation_name = ''bolshoi'', default_scale_factor = 10003 / 10000,
         default_halo_finder = ''rockstar'', default_numptcl = 200000\<rparr>)
     \<lparr>files = Map.empty,
      remote = [''http://host/bolshoi_a1.0003_rockstar_halos.fits'' \<mapsto> ''halo table''],
      requests = []\<rparr>
     ''/cache/halos'' (Some ''bolshoi_a1.0003_rockstar_halos.fits'') True ''http://host''
   = (Inl (IOError ''Input filename does not match one of the provided default catalogs''),
      \<lparr>files = Map.empty,
       remote = [''http://host/bolshoi_a1.0003_rockstar_halos.fits'' \<mapsto> ''halo table''],
       requests = []\<rparr>)"
  using load_catalog_default_halo_download_fails
    [of "\<lparr>files = Map.empty,
          remote = [''http://host/bolshoi_a1.0003_rockstar_halos.fits'' \<mapsto> ''halo table''],
          requests = []\<rparr>"
        "''/cache/halos''" "\<lambda>x. ''1.0003''"
        "\<lparr>default_simulation_name = ''bolshoi'', default_scale_factor = 10003 / 10000,
          default_halo_finder = ''rockstar'', default_numptcl = 200000\<rparr>"
        "(@) ''/cache/''" Inr "''http://host''"]
  by (simp add: Catalog_Manager_init_def)

text \<open>
  Claim C6. When the file is there, \<open>load_catalog\<close> returns what the reader makes of the
  contents of that file, whatever \<open>download_yn\<close> is; the world, and so the list of the
  URLs opened, is left as it was.
\<close>

theorem load_catalog_local_file:
  "files w (os_path_join dirname
             (case filename of None \<Rightarrow> default_halo_catalog_filename self | Some f \<Rightarrow> f))
     = Some content
   \<longrightarrow> load_catalog get_catalogs_dir read_table self w dirname filename download_yn url
       = ((case read_table content of Inl e \<Rightarrow> Inl e | Inr catalog \<Rightarrow> Inr (Some catalog)), w)
     \<and> requests (snd (load_catalog get_catalogs_dir read_table self w dirname filename
                        download_yn url)) = requests w"
  by (simp add: load_catalog_def isfile_def fits_open_table_def Let_def split: sum.splits)

theorem load_catalog_local_file_witness:
  "load_catalog ((@) ''/cache/'') Inr
     \<lparr>default_halo_catalog_filename = ''bolshoi_a1.0003_rockstar_halos.fits'',
      default_particle_catalog_filename = ''bolshoi_a1.0003_2e5_particles.fits''\<rparr>
     \<lparr>files = [''/cache/halos/bolshoi_a0.7000_rockstar_halos.fits'' \<mapsto> ''halo table''],
      remote = Map.empty, requests = []\<rparr>
     ''/cache/halos'' (Some ''bolshoi_a0.7000_rockstar_halos.fits'') True ''http://host''
   = (Inr (Some ''halo table''),
      \<lparr>files = [''/cache/halos/bolshoi_a0.7000_rockstar_halos.fits'' \<mapsto> ''halo table''],
       remote = Map.empty, requests = []\<rparr>)"
  using load_catalog_local_file
    [of "\<lparr>files = [''/cache/halos/bolshoi_a0.7000_rockstar_halos.fits'' \<mapsto> ''halo table''],
          remote = Map.empty, requests = []\<rparr>"
        "''/cache/halos''"
        "\<lparr>default_halo_catalog_filename = ''bolshoi_a1.0003_rockstar_halos.fits'',
          default_particle_catalog_filename = ''bolshoi_a1.0003_2e5_particles.fits''\<rparr>"
        "Some ''bolshoi_a0.7000_rockstar_halos.fits''"
        "''halo table''" "(@) ''/cache/''" Inr True "''http://host''"]
  by (simp add: os_path_join_def)

text \<open>
  Claim C7. When the file is absent and \<open>download_yn\<close> is false, \<open>load_catalog\<close> returns
  \<open>None\<close> and raises nothing; the world is left as it was.
\<close>

theorem load_catalog_absent_no_download:
  "files w (os_path_join dirname
             (case filename of None \<Rightarrow> default_halo_catalog_filename self | Some f \<Rightarrow> f))
     = None
   \<longrightarrow> load_catalog get_catalogs_dir read_table self w dirname filename False url
       = (Inr None, w)"
  by (simp add: load_catalog_def isfile_def Let_def)

theorem load_catalog_absent_no_download_witness:
  "load_catalog ((@) ''/cache/'') Inr
     \<lparr>default_halo_catalog_filename = ''bolshoi_a1.0003_rockstar_halos.fits'',
      default_particle_catalog_filename = ''bolshoi_a1.0003_2e5_particles.fits''\<rparr>
     \<lparr>files = [''/cache/halos/bolshoi_a0.7000_rockstar_halos.fits'' \<mapsto> ''halo table''],
      remote = [''http://host/bolshoi_a1.0003_2e5_particles.fits'' \<mapsto> ''particle table''],
      requests = []\<rparr>
     ''/cache/particles'' (Some ''bolshoi_a1.0003_2e5_particles.fits'') False ''http://host''
   = (Inr (None :: string option),
      \<lparr>files = [''/cache/halos/bolshoi_a0.7000_rockstar_halos.fits'' \<mapsto> ''halo table''],
       remote = [''http://host/bolshoi_a1.0003_2e5_particles.fits'' \<mapsto> ''particle table''],
       requests = []\<rparr>)"
  using load_catalog_absent_no_download
    [of "\<lparr>files = [''/cache/halos/bolshoi_a0.7000_rockstar_halos.fits'' \<mapsto> ''halo table''],
          remote = [''http://host/bolshoi_a1.0003_2e5_particles.fits'' \<mapsto> ''particle table''],
          requests = []\<rparr>"
        "''/cache/particles''"
        "\<lparr>default_halo_catalog_filename = ''bolshoi_a1.0003_rockstar_halos.fits'',
          default_particle_catalog_filename = ''bolshoi_a1.0003_2e5_particles.fits''\<rparr>"
        "Some ''bolshoi_a1.0003_2e5_particles.fits''"
        "(@) ''/cache/''" "Inr :: string \<Rightarrow> error + string" "''http://host''"]
  by (simp add: os_path_join_def)

end
